theory Spec2Isabelle
  imports Complex_Main "HOL-Library.Word"
begin

section \<open>JavaScript values, errors and strings\<close>

text \<open>
  The Lambda function of \<open>index.js\<close> is glue code around three external collaborators:
  AWS Secrets Manager, S3 and the openpgp library. The embedding keeps every function of
  the file under its own name, writes each \<open>throw\<close> and each \<open>try/catch\<close> as a branch on a
  sum type, and records every call to a collaborator in a trace, so that statements such
  as "no listing call occurs" are statements about that trace.
\<close>

text \<open>Thrown values. Every error the file reads is read through \<open>error.message\<close>.\<close>

datatype js_error =
    Error string
  | TypeError string
  | ReferenceError string
  | SyntaxError string

fun message :: "js_error \<Rightarrow> string" where
  "message (Error m) = m"
| "message (TypeError m) = m"
| "message (ReferenceError m) = m"
| "message (SyntaxError m) = m"

text \<open>
  Values that reach the key material: a field of the parsed secret can hold any JSON
  value, an environment variable is a string or undefined. \<open>JObj\<close> stands for any
  object or array (always truthy), named by a handle. \<open>JInherited\<close> is what every
  object inherits under a name of \<open>Object.prototype\<close>: a built-in function, or the
  prototype itself under \<open>__proto__\<close>; it is truthy too.
\<close>

datatype jsval =
    JUndefined
  | JNull
  | JBool bool
  | JNum rat
  | JStr string
  | JObj nat
  | JInherited string

text \<open>JavaScript's ToBoolean, as used by \<open>if (x)\<close>, \<open>!x\<close> and \<open>x || y\<close>.\<close>

fun truthy :: "jsval \<Rightarrow> bool" where
  "truthy JUndefined = False"
| "truthy JNull = False"
| "truthy (JBool b) = b"
| "truthy (JNum r) = (r \<noteq> 0)"
| "truthy (JStr s) = (s \<noteq> [])"
| "truthy (JObj h) = True"
| "truthy (JInherited name) = True"

text \<open>\<open>process.env\<close>: a variable is a string, or undefined when it is not set.\<close>

type_synonym env = "string \<rightharpoonup> string"

definition env_val :: "string option \<Rightarrow> jsval" where
  "env_val v = (case v of None \<Rightarrow> JUndefined | Some s \<Rightarrow> JStr s)"

text \<open>\<open>a || b\<close> on two values that are strings or undefined.\<close>

definition or_else :: "string option \<Rightarrow> string option \<Rightarrow> string option" where
  "or_else a b = (if truthy (env_val a) then a else b)"

text \<open>\<open>a || 'literal'\<close>: the result is always a string.\<close>

definition or_default :: "string option \<Rightarrow> string \<Rightarrow> string" where
  "or_default a d = (case a of None \<Rightarrow> d | Some s \<Rightarrow> if s = [] then d else s)"

text \<open>\<open>s.split(sep)\<close> for a one-character separator: never the empty array.\<close>

fun split_str :: "char \<Rightarrow> string \<Rightarrow> string list" where
  "split_str sep [] = [[]]"
| "split_str sep (c # cs) =
     (if c = sep then [] # split_str sep cs
      else (case split_str sep cs of
              [] \<Rightarrow> [[c]]
            | w # ws \<Rightarrow> (c # w) # ws))"

text \<open>\<open>s.endsWith(suffix)\<close>.\<close>

definition endsWith :: "string \<Rightarrow> string \<Rightarrow> bool" where
  "endsWith s suffix =
     (length suffix \<le> length s \<and> drop (length s - length suffix) s = suffix)"

text \<open>\<open>s.slice(0, -n)\<close>: all but the last \<open>n\<close> characters, the empty string when
  \<open>s\<close> is shorter than \<open>n\<close>.\<close>

definition slice_off :: "string \<Rightarrow> nat \<Rightarrow> string" where
  "slice_off s n = take (length s - n) s"

text \<open>A non-negative integer inside a template literal: its decimal digits.\<close>

definition digit_char :: "nat \<Rightarrow> char" where
  "digit_char d = ''0123456789'' ! (d mod 10)"

function string_of_nat :: "nat \<Rightarrow> string" where
  "string_of_nat n =
     (if n < 10 then [digit_char n] else string_of_nat (n div 10) @ [digit_char (n mod 10)])"
  by pat_completeness auto
termination
  by (relation "measure id") auto

declare string_of_nat.simps [simp del]

section \<open>The collaborators and the trace of calls\<close>

type_synonym buffer = "8 word list"
type_synonym private_key = nat
type_synonym pgp_message = nat
type_synonym timestamp = int

text \<open>What \<open>JSON.parse\<close> returned. \<open>PNull\<close> is the value \<open>null\<close>, on which a
  property read throws. \<open>PObject\<close> is a JSON object, given by its own fields: the
  fields written in the payload. \<open>POther\<close> is any other value (a boolean, a number, a
  string, an array), given by what reading each property of it yields, with no entry
  where the read yields undefined.\<close>

datatype parsed =
    PNull
  | PObject "string \<rightharpoonup> jsval"
  | POther "string \<rightharpoonup> jsval"

record GetSecretValueResponse =
  SecretString :: "string option"

text \<open>One entry of \<open>Contents\<close> in a listing.\<close>

record ObjectDescriptor =
  Key :: string
  Size :: int
  LastModified :: timestamp

text \<open>The listing's response; the file itself allows for \<open>Contents\<close> being
  undefined (\<open>result.Contents || []\<close>).\<close>

record ListObjectsV2Output =
  Contents :: "ObjectDescriptor list option"

record GetObjectOutput =
  Body :: buffer

record ManagedUploadData =
  upload_Location :: string
  upload_Key :: string

text \<open>A call to a collaborator, with its arguments.\<close>

datatype call =
    is_GetSecretValue: GetSecretValue "string option"
  | is_ListObjectsV2: ListObjectsV2 string "string option"
  | is_GetObject: GetObject string string
  | is_S3Upload: S3Upload string string buffer string
  | is_ReadPrivateKey: ReadPrivateKey jsval
  | is_DecryptKey: DecryptKey private_key jsval
  | is_ReadMessage: ReadMessage buffer
  | is_Decrypt: Decrypt pgp_message private_key

text \<open>
  The collaborators. Each answers from the calls made so far and its arguments, so a
  store that changes between two calls is covered. \<open>JSON_parse\<close> is the built-in, which
  has no state.
\<close>

record services =
  sm_getSecretValue :: "call list \<Rightarrow> string option \<Rightarrow> js_error + GetSecretValueResponse"
  JSON_parse :: "string \<Rightarrow> js_error + parsed"
  s3_listObjectsV2 :: "call list \<Rightarrow> string \<Rightarrow> string option \<Rightarrow> js_error + ListObjectsV2Output"
  s3_getObject :: "call list \<Rightarrow> string \<Rightarrow> string \<Rightarrow> js_error + GetObjectOutput"
  s3_upload :: "call list \<Rightarrow> string \<Rightarrow> string \<Rightarrow> buffer \<Rightarrow> string \<Rightarrow> js_error + ManagedUploadData"
  openpgp_readPrivateKey :: "call list \<Rightarrow> jsval \<Rightarrow> js_error + private_key"
  openpgp_decryptKey :: "call list \<Rightarrow> private_key \<Rightarrow> jsval \<Rightarrow> js_error + private_key"
  openpgp_readMessage :: "call list \<Rightarrow> buffer \<Rightarrow> js_error + pgp_message"
  openpgp_decrypt :: "call list \<Rightarrow> pgp_message \<Rightarrow> private_key \<Rightarrow> js_error + buffer"

text \<open>An async function body: from the trace so far to a value or a thrown error, and
  the trace extended by the calls it made.\<close>

type_synonym 'a prog = "call list \<Rightarrow> (js_error + 'a) \<times> call list"

definition ret :: "'a \<Rightarrow> 'a prog" where
  "ret x tr = (Inr x, tr)"

definition throw :: "js_error \<Rightarrow> 'a prog" where
  "throw e tr = (Inl e, tr)"

definition lift :: "js_error + 'a \<Rightarrow> 'a prog" where
  "lift r tr = (r, tr)"

definition bnd :: "'a prog \<Rightarrow> ('a \<Rightarrow> 'b prog) \<Rightarrow> 'b prog" where
  "bnd m f tr = (case m tr of (Inl e, tr') \<Rightarrow> (Inl e, tr') | (Inr x, tr') \<Rightarrow> f x tr')"

definition try_catch :: "'a prog \<Rightarrow> (js_error \<Rightarrow> 'a prog) \<Rightarrow> 'a prog" where
  "try_catch m h tr = (case m tr of (Inl e, tr') \<Rightarrow> h e tr' | (Inr x, tr') \<Rightarrow> (Inr x, tr'))"

text \<open>\<open>await\<close> of a collaborator's promise: the call is recorded, the answer is the
  collaborator's.\<close>

definition await :: "call \<Rightarrow> (call list \<Rightarrow> js_error + 'a) \<Rightarrow> 'a prog" where
  "await c answer tr = (answer tr, tr @ [c])"

section \<open>The functions of index.js\<close>

subsection \<open>uploadDecryptedFile\<close>

text \<open>
  Reading an identifier: a name with no visible binding throws a ReferenceError.
\<close>

definition read_var :: "(string \<times> string) list \<Rightarrow> string \<Rightarrow> js_error + string" where
  "read_var bindings name =
     (case map_of bindings name of
        Some v \<Rightarrow> Inr v
      | None \<Rightarrow> Inl (ReferenceError (name @ '' is not defined'')))"

text \<open>
  The string-valued bindings visible at line 109: the parameters \<open>bucketName\<close>, \<open>key\<close>,
  \<open>encryptedPrefix\<close> and the two consts declared above it. The other names in scope
  there are \<open>decryptedContent\<close> and the module's own \<open>AWS\<close>, \<open>openpgp\<close>,
  \<open>secretsManager\<close>, \<open>s3\<close> and five functions. The const \<open>decryptedPrefix\<close> of line 189
  is local to the handler's \<open>try\<close> block.
\<close>

definition upload_bindings ::
  "string \<Rightarrow> string \<Rightarrow> string \<Rightarrow> string \<Rightarrow> string \<Rightarrow> (string \<times> string) list" where
  "upload_bindings bucketName key encryptedPrefix fileName decryptedFileName =
     [(''bucketName'', bucketName), (''key'', key), (''encryptedPrefix'', encryptedPrefix),
      (''fileName'', fileName), (''decryptedFileName'', decryptedFileName)]"

definition uploadDecryptedFile ::
  "services \<Rightarrow> string \<Rightarrow> string \<Rightarrow> buffer \<Rightarrow> string \<Rightarrow> ManagedUploadData prog" where
  "uploadDecryptedFile sv bucketName key decryptedContent encryptedPrefix =
     try_catch
       (let fileName = last (split_str CHR ''/'' key);
            decryptedFileName =
              (if endsWith fileName ''.gpg'' then slice_off fileName 4
               else fileName @ ''.decrypted'')
        in bnd (lift (read_var
                  (upload_bindings bucketName key encryptedPrefix fileName decryptedFileName)
                  ''decryptedPrefix''))
             (\<lambda>decryptedPrefix.
                let decryptedKey = decryptedPrefix @ decryptedFileName
                in bnd (await (S3Upload bucketName decryptedKey decryptedContent
                                 ''application/octet-stream'')
                          (\<lambda>tr. s3_upload sv tr bucketName decryptedKey decryptedContent
                                 ''application/octet-stream''))
                     (\<lambda>result. ret result)))
       (\<lambda>error. throw (Error (''Failed to upload decrypted file: '' @ message error)))"

subsection \<open>listEncryptedFiles\<close>

text \<open>A name between single quotes, as V8 prints it in a TypeError's message.\<close>

definition quoted :: "string \<Rightarrow> string" where
  "quoted name = [CHR 0x27] @ name @ [CHR 0x27]"

text \<open>\<open>result.Contents.length\<close> (line 65): reading \<open>length\<close> of undefined throws.\<close>

definition length_of :: "'a list option \<Rightarrow> js_error + nat" where
  "length_of xs =
     (case xs of
        None \<Rightarrow>
          Inl (TypeError (''Cannot read properties of undefined (reading ''
                            @ quoted ''length'' @ '')''))
      | Some ys \<Rightarrow> Inr (length ys))"

text \<open>\<open>result.Contents || []\<close> (line 66): an array, even an empty one, is truthy.\<close>

definition or_empty :: "'a list option \<Rightarrow> 'a list" where
  "or_empty xs = (case xs of None \<Rightarrow> [] | Some ys \<Rightarrow> ys)"

definition listEncryptedFiles ::
  "services \<Rightarrow> string \<Rightarrow> string option \<Rightarrow> ObjectDescriptor list prog" where
  "listEncryptedFiles sv bucketName prefix =
     try_catch
       (bnd (await (ListObjectsV2 bucketName prefix)
               (\<lambda>tr. s3_listObjectsV2 sv tr bucketName prefix))
          (\<lambda>result.
             bnd (lift (length_of (Contents result)))
               (\<lambda>found. ret (or_empty (Contents result)))))
       (\<lambda>error. throw (Error (''Failed to list files from S3: '' @ message error)))"

subsection \<open>downloadFileFromS3\<close>

definition downloadFileFromS3 :: "services \<Rightarrow> string \<Rightarrow> string \<Rightarrow> buffer prog" where
  "downloadFileFromS3 sv bucketName key =
     try_catch
       (bnd (await (GetObject bucketName key) (\<lambda>tr. s3_getObject sv tr bucketName key))
          (\<lambda>result. ret (Body result)))
       (\<lambda>error. throw (Error (''Failed to download file '' @ key @ '': '' @ message error)))"

subsection \<open>decryptFile\<close>

definition decryptFile :: "services \<Rightarrow> buffer \<Rightarrow> jsval \<Rightarrow> jsval \<Rightarrow> buffer prog" where
  "decryptFile sv encryptedData privateKeyArmored passphrase =
     try_catch
       (bnd (await (ReadPrivateKey privateKeyArmored)
               (\<lambda>tr. openpgp_readPrivateKey sv tr privateKeyArmored))
          (\<lambda>readKey.
             bnd (if truthy passphrase
                  then await (DecryptKey readKey passphrase)
                         (\<lambda>tr. openpgp_decryptKey sv tr readKey passphrase)
                  else ret readKey)
               (\<lambda>privateKey.
                  bnd (await (ReadMessage encryptedData)
                         (\<lambda>tr. openpgp_readMessage sv tr encryptedData))
                    (\<lambda>msg.
                       bnd (await (Decrypt msg privateKey)
                              (\<lambda>tr. openpgp_decrypt sv tr msg privateKey))
                         (\<lambda>decryptedData. ret decryptedData)))))
       (\<lambda>error. throw (Error (''Failed to decrypt file: '' @ message error)))"

subsection \<open>getPGPPrivateKey\<close>

record KeyMaterial =
  km_privateKey :: jsval
  km_passphrase :: jsval

text \<open>The property names of \<open>Object.prototype\<close>, which every object parsed from JSON
  inherits.\<close>

definition Object_prototype_names :: "string list" where
  "Object_prototype_names =
     [''constructor'', ''__defineGetter__'', ''__defineSetter__'', ''hasOwnProperty'',
      ''__lookupGetter__'', ''__lookupSetter__'', ''isPrototypeOf'', ''propertyIsEnumerable'',
      ''toString'', ''valueOf'', ''__proto__'', ''toLocaleString'']"

text \<open>\<open>secretData[name]\<close>: a TypeError on \<open>null\<close>; on an object its own field of that
  name, else what it inherits under that name, else undefined.\<close>

definition get_prop :: "parsed \<Rightarrow> string \<Rightarrow> js_error + jsval" where
  "get_prop secretData name =
     (case secretData of
        PNull \<Rightarrow>
          Inl (TypeError (''Cannot read properties of null (reading '' @ quoted name
                            @ '')''))
      | PObject own \<Rightarrow>
          Inr (case own name of
                 Some v \<Rightarrow> v
               | None \<Rightarrow>
                   if name \<in> set Object_prototype_names then JInherited name
                   else JUndefined)
      | POther reads \<Rightarrow>
          Inr (case reads name of None \<Rightarrow> JUndefined | Some v \<Rightarrow> v))"

text \<open>The default parameter \<open>keyName = 'pgp-key'\<close> applies when the argument is
  undefined, and only then.\<close>

definition getPGPPrivateKey ::
  "services \<Rightarrow> string option \<Rightarrow> string option \<Rightarrow> KeyMaterial prog" where
  "getPGPPrivateKey sv secretName keyNameArg =
     (let keyName = (case keyNameArg of None \<Rightarrow> ''pgp-key'' | Some k \<Rightarrow> k)
      in try_catch
           (bnd (await (GetSecretValue secretName) (\<lambda>tr. sm_getSecretValue sv tr secretName))
              (\<lambda>result.
                 case SecretString result of
                   None \<Rightarrow> throw (Error ''Secret value is not a string'')
                 | Some secretString \<Rightarrow>
                     if truthy (JStr secretString)
                     then bnd (lift (JSON_parse sv secretString))
                            (\<lambda>secretData.
                               bnd (lift (get_prop secretData keyName))
                                 (\<lambda>keyField.
                                    if \<not> truthy keyField
                                    then throw (Error (''Secret does not contain '' @ keyName
                                                        @ '' field''))
                                    else bnd (lift (get_prop secretData ''passphrase''))
                                           (\<lambda>pass.
                                              ret \<lparr>km_privateKey = keyField,
                                                   km_passphrase =
                                                     (if truthy pass then pass else JNull)\<rparr>)))
                     else throw (Error ''Secret value is not a string'')))
           (\<lambda>error. throw (Error (''Failed to retrieve PGP private key: '' @ message error))))"

subsection \<open>The handler\<close>

text \<open>An element of \<open>results\<close>: the object pushed at line 258 or the one pushed at
  line 269.\<close>

datatype ProcessingResult =
    Success (originalFile: string) (decryptedFile: string) (size_of: int)
      (lastModified: timestamp)
  | Failure (originalFile: string) (error_message: string) (status: string)

text \<open>\<open>r.error\<close>: undefined on an object without that property.\<close>

fun error_field :: "ProcessingResult \<Rightarrow> jsval" where
  "error_field (Success k d s t) = JUndefined"
| "error_field (Failure k m st) = JStr m"

text \<open>The object given to \<open>JSON.stringify\<close> for the response's body: the early exit of
  line 229 (\<open>message\<close>, \<open>decryptedFiles\<close>), the summary of line 284 (\<open>message\<close>,
  \<open>results\<close>) and the failure of line 295 (\<open>error\<close>, \<open>message\<close>).\<close>

datatype body =
    NoFiles string "ProcessingResult list"
  | Summary string "ProcessingResult list"
  | ErrorBody string string

record response =
  statusCode :: nat
  body :: body

text \<open>Lines 203 to 216: the key from the environment when \<open>privateKey\<close> is truthy, from
  Secrets Manager otherwise.\<close>

definition resolve_key :: "services \<Rightarrow> env \<Rightarrow> KeyMaterial prog" where
  "resolve_key sv env =
     (let secretName = or_else (env ''secretName'') (env ''SECRET_NAME'');
          privateKey = env ''privateKey'';
          passphrase = env ''passphrase'';
          keyName = env ''keyName''
      in if truthy (env_val privateKey)
         then ret \<lparr>km_privateKey = env_val privateKey, km_passphrase = env_val passphrase\<rparr>
         else bnd (getPGPPrivateKey sv secretName keyName)
                (\<lambda>secretData.
                   ret \<lparr>km_privateKey = km_privateKey secretData,
                        km_passphrase = km_passphrase secretData\<rparr>))"

text \<open>Lines 240 to 274: the body of the loop for one file, its \<open>try\<close> and its \<open>catch\<close>.
  \<open>continue\<close> leaves \<open>results\<close> as it is.\<close>

definition process_file ::
  "services \<Rightarrow> string \<Rightarrow> jsval \<Rightarrow> jsval \<Rightarrow> string \<Rightarrow> ObjectDescriptor \<Rightarrow>
   ProcessingResult list \<Rightarrow> ProcessingResult list prog" where
  "process_file sv bucketName pgpPrivateKey pgpPassphrase decryptedPrefix file results =
     try_catch
       (if endsWith (Key file) ''/'' then ret results
        else bnd (downloadFileFromS3 sv bucketName (Key file))
               (\<lambda>encryptedData.
                  bnd (decryptFile sv encryptedData pgpPrivateKey pgpPassphrase)
                    (\<lambda>decryptedData.
                       bnd (uploadDecryptedFile sv bucketName (Key file) decryptedData
                              decryptedPrefix)
                         (\<lambda>uploadResult.
                            ret (results @ [Success (Key file) (upload_Key uploadResult)
                                              (Size file) (LastModified file)])))))
       (\<lambda>fileError. ret (results @ [Failure (Key file) (message fileError) ''failed'']))"

text \<open>Lines 239 to 275: \<open>for (const file of files)\<close>.\<close>

fun process_files ::
  "services \<Rightarrow> string \<Rightarrow> jsval \<Rightarrow> jsval \<Rightarrow> string \<Rightarrow> ObjectDescriptor list \<Rightarrow>
   ProcessingResult list \<Rightarrow> ProcessingResult list prog" where
  "process_files sv bucketName pgpPrivateKey pgpPassphrase decryptedPrefix [] results =
     ret results"
| "process_files sv bucketName pgpPrivateKey pgpPassphrase decryptedPrefix (file # files) results =
     bnd (process_file sv bucketName pgpPrivateKey pgpPassphrase decryptedPrefix file results)
       (process_files sv bucketName pgpPrivateKey pgpPassphrase decryptedPrefix files)"

text \<open>Lines 277 and 278.\<close>

definition successCount :: "ProcessingResult list \<Rightarrow> nat" where
  "successCount results = length (filter (\<lambda>r. \<not> truthy (error_field r)) results)"

definition failureCount :: "ProcessingResult list \<Rightarrow> nat" where
  "failureCount results = length (filter (\<lambda>r. truthy (error_field r)) results)"

text \<open>Line 285.\<close>

definition summary_message :: "nat \<Rightarrow> nat \<Rightarrow> nat \<Rightarrow> string" where
  "summary_message listed succeeded failed =
     ''Processed '' @ string_of_nat listed @ '' files. Success: '' @ string_of_nat succeeded
       @ '', Failures: '' @ string_of_nat failed"

text \<open>
  The handler. The event is only logged, and so are \<open>awsRegion\<close> and \<open>encryptedPrefix\<close>;
  they are left out. Everything from line 179 on is inside the outer \<open>try\<close>, whose
  \<open>catch\<close> answers 500.
\<close>

definition handler :: "services \<Rightarrow> env \<Rightarrow> response prog" where
  "handler sv env =
     try_catch
       (let bucketName =
              or_default (or_else (env ''bucketName'') (env ''S3_BUCKET_NAME''))
                ''sftp-file-sync-vivien'';
            prefix = env ''S3_PREFIX'';
            decryptedPrefix = or_default (env ''decryptedPrefix'') ''decrypt_files/''
        in bnd (resolve_key sv env)
             (\<lambda>material.
                let pgpPrivateKey = km_privateKey material;
                    pgpPassphrase = km_passphrase material
                in bnd (listEncryptedFiles sv bucketName prefix)
                     (\<lambda>files.
                        if length files = 0
                        then ret \<lparr>statusCode = 200,
                                  body = NoFiles ''No files found to decrypt'' []\<rparr>
                        else bnd (process_files sv bucketName pgpPrivateKey pgpPassphrase
                                    decryptedPrefix files [])
                               (\<lambda>results.
                                  ret \<lparr>statusCode = 200,
                                       body = Summary
                                         (summary_message (length files)
                                            (successCount results) (failureCount results))
                                         results\<rparr>))))
       (\<lambda>error. ret \<lparr>statusCode = 500,
                      body = ErrorBody ''Internal server error'' (message error)\<rparr>)"

section \<open>Vocabulary of the statements\<close>

text \<open>A descriptor the loop does not skip: its key has no trailing path separator.\<close>

definition not_directory :: "ObjectDescriptor \<Rightarrow> bool" where
  "not_directory file = (\<not> endsWith (Key file) ''/'')"

text \<open>A result that has an \<open>error\<close> property at all, whatever its value.\<close>

fun has_error_field :: "ProcessingResult \<Rightarrow> bool" where
  "has_error_field (Success k d s t) = False"
| "has_error_field (Failure k m st) = True"

definition is_openpgp :: "call \<Rightarrow> bool" where
  "is_openpgp c = (is_ReadPrivateKey c \<or> is_DecryptKey c \<or> is_ReadMessage c \<or> is_Decrypt c)"

text \<open>A call that is no fetch from the secrets store and that, where it takes key
  material, takes the given one.\<close>

definition uses_key :: "jsval \<Rightarrow> jsval \<Rightarrow> call \<Rightarrow> bool" where
  "uses_key k p c =
     (case c of
        ReadPrivateKey k' \<Rightarrow> k' = k
      | DecryptKey h p' \<Rightarrow> p' = p
      | GetSecretValue n \<Rightarrow> False
      | _ \<Rightarrow> True)"

text \<open>
  A sample world for concrete runs. The secret parses to an object with the given fields, the
  listing answers the given \<open>Contents\<close>, the object \<open>in/b.gpg\<close> cannot be downloaded, and
  the only passphrase that unlocks the key is \<open>pw\<close>.
\<close>

definition sample_services ::
  "(string \<rightharpoonup> jsval) \<Rightarrow> ObjectDescriptor list option \<Rightarrow> services" where
  "sample_services props contents =
     \<lparr>sm_getSecretValue = (\<lambda>tr name. Inr \<lparr>SecretString = Some ''{...}''\<rparr>),
      JSON_parse = (\<lambda>text. Inr (PObject props)),
      s3_listObjectsV2 = (\<lambda>tr bucket prefix. Inr \<lparr>Contents = contents\<rparr>),
      s3_getObject = (\<lambda>tr bucket key.
         if key = ''in/b.gpg'' then Inl (Error ''The specified key does not exist.'')
         else Inr \<lparr>Body = [1, 2, 3]\<rparr>),
      s3_upload = (\<lambda>tr bucket key content contentType.
         Inr \<lparr>upload_Location = bucket @ ''/'' @ key, upload_Key = key\<rparr>),
      openpgp_readPrivateKey = (\<lambda>tr armored. Inr 1),
      openpgp_decryptKey = (\<lambda>tr key pass.
         if pass = JStr ''pw'' then Inr 2 else Inl (Error ''Incorrect key passphrase'')),
      openpgp_readMessage = (\<lambda>tr content. Inr 7),
      openpgp_decrypt = (\<lambda>tr msg key. Inr [4, 5])\<rparr>"

definition sample_listing :: "ObjectDescriptor list" where
  "sample_listing =
     [\<lparr>Key = ''in/'', Size = 0, LastModified = 100\<rparr>,
      \<lparr>Key = ''in/a.gpg'', Size = 10, LastModified = 101\<rparr>,
      \<lparr>Key = ''in/b.gpg'', Size = 20, LastModified = 102\<rparr>,
      \<lparr>Key = ''in/c.txt'', Size = 30, LastModified = 103\<rparr>]"

text \<open>The handler's configuration expressions (lines 181, 183 and 189), for the
  statements to name.\<close>

abbreviation bucket_of :: "env \<Rightarrow> string" where
  "bucket_of env \<equiv>
     or_default (or_else (env ''bucketName'') (env ''S3_BUCKET_NAME'')) ''sftp-file-sync-vivien''"

abbreviation secret_of :: "env \<Rightarrow> string option" where
  "secret_of env \<equiv> or_else (env ''secretName'') (env ''SECRET_NAME'')"

abbreviation dest_of :: "env \<Rightarrow> string" where
  "dest_of env \<equiv> or_default (env ''decryptedPrefix'') ''decrypt_files/''"

text \<open>The field name \<open>getPGPPrivateKey\<close> looks up: the default applies to an
  undefined argument.\<close>

abbreviation key_field_of :: "env \<Rightarrow> string" where
  "key_field_of env \<equiv> (case env ''keyName'' of None \<Rightarrow> ''pgp-key'' | Some k \<Rightarrow> k)"

text \<open>Two sample environments: one with the key override, one that names a secret.\<close>

definition sample_env :: env where
  "sample_env = map_of [(''privateKey'', ''KEY''), (''passphrase'', ''pw''), (''S3_PREFIX'', ''in/'')]"

definition sample_env_secret :: env where
  "sample_env_secret = map_of [(''secretName'', ''pgp-secret''), (''S3_PREFIX'', ''in/'')]"

text \<open>An environment whose key field name is one every object inherits.\<close>

definition sample_env_inherited :: env where
  "sample_env_inherited =
     map_of [(''secretName'', ''pgp-secret''), (''keyName'', ''toString''), (''S3_PREFIX'', ''in/'')]"

text \<open>A world whose listing call is refused.\<close>

definition sample_services_denied :: services where
  "sample_services_denied =
     (sample_services Map.empty (Some []))
       \<lparr>s3_listObjectsV2 := (\<lambda>tr bucket prefix. Inl (Error ''Access Denied''))\<rparr>"


text \<open>The calls that obtain a usable key: reading the armored key, then unlocking it when
  a passphrase is given.\<close>

definition key_steps :: "jsval \<Rightarrow> jsval \<Rightarrow> private_key \<Rightarrow> call list" where
  "key_steps key pass readKey =
     ReadPrivateKey key # (if truthy pass then [DecryptKey readKey pass] else [])"

text \<open>A secret whose passphrase does not unlock the key.\<close>

definition sample_secret_bad :: "string \<rightharpoonup> jsval" where
  "sample_secret_bad = map_of [(''pgp-key'', JStr ''KEY''), (''passphrase'', JStr ''bad'')]"

section \<open>The combinators and the trace of each function\<close>

lemmas prog_defs = ret_def throw_def lift_def bnd_def try_catch_def await_def

text \<open>\<open>key.split('/')\<close> is never empty, so \<open>pop()\<close> in line 107 has a last element to return.\<close>

lemma split_str_not_Nil: "split_str sep s \<noteq> []"
  by (induction s) (auto split: list.splits)

lemma uploadDecryptedFile_throws:
  "uploadDecryptedFile sv bucketName key content pfx tr =
     (Inl (Error ''Failed to upload decrypted file: decryptedPrefix is not defined''), tr)"
  by (simp add: uploadDecryptedFile_def prog_defs read_var_def upload_bindings_def Let_def)

lemma downloadFileFromS3_trace:
  "snd (downloadFileFromS3 sv b k tr) = tr @ [GetObject b k]"
  by (simp add: downloadFileFromS3_def prog_defs split: sum.splits)

lemma listEncryptedFiles_trace:
  "snd (listEncryptedFiles sv b p tr) = tr @ [ListObjectsV2 b p]"
  by (simp add: listEncryptedFiles_def prog_defs length_of_def split: sum.splits option.splits)

lemma getPGPPrivateKey_trace:
  "snd (getPGPPrivateKey sv sn kn tr) = tr @ [GetSecretValue sn]"
  by (simp add: getPGPPrivateKey_def prog_defs get_prop_def Let_def
      split: sum.splits option.splits parsed.splits)

lemma decryptFile_calls:
  "\<exists>cs. snd (decryptFile sv d k p tr) = tr @ cs \<and> list_all is_openpgp cs
        \<and> list_all (uses_key k p) cs"
  by (simp add: decryptFile_def prog_defs is_openpgp_def uses_key_def split: sum.splits)

lemma decryptFile_error:
  "decryptFile sv d k p tr = (Inl e, tr') \<Longrightarrow>
     \<exists>e0. e = Error (''Failed to decrypt file: '' @ message e0)"
  by (auto simp add: decryptFile_def prog_defs split: sum.splits if_splits)

lemma downloadFileFromS3_error:
  "downloadFileFromS3 sv b k tr = (Inl e, tr') \<Longrightarrow>
     \<exists>e0. e = Error (''Failed to download file '' @ k @ '': '' @ message e0)"
  by (auto simp add: downloadFileFromS3_def prog_defs split: sum.splits if_splits)


lemma process_file_directory:
  "endsWith (Key f) ''/'' \<Longrightarrow> process_file sv b k p dp f rs tr = (Inr rs, tr)"
  by (simp add: process_file_def prog_defs)

lemma process_file_download_fails:
  assumes "\<not> endsWith (Key f) ''/''"
    and "downloadFileFromS3 sv b (Key f) tr = (Inl e, tr')"
  shows "process_file sv b k p dp f rs tr = (Inr (rs @ [Failure (Key f) (message e) ''failed'']), tr')"
  using assms by (simp add: process_file_def prog_defs)

lemma process_file_decrypt_fails:
  assumes "\<not> endsWith (Key f) ''/''"
    and "downloadFileFromS3 sv b (Key f) tr = (Inr d, tr1)"
    and "decryptFile sv d k p tr1 = (Inl e, tr')"
  shows "process_file sv b k p dp f rs tr = (Inr (rs @ [Failure (Key f) (message e) ''failed'']), tr')"
  using assms by (simp add: process_file_def prog_defs)

lemma process_file_upload_fails:
  assumes "\<not> endsWith (Key f) ''/''"
    and "downloadFileFromS3 sv b (Key f) tr = (Inr d, tr1)"
    and "decryptFile sv d k p tr1 = (Inr plain, tr2)"
    and "uploadDecryptedFile sv b (Key f) plain dp tr2 = (Inl e, tr')"
  shows "process_file sv b k p dp f rs tr = (Inr (rs @ [Failure (Key f) (message e) ''failed'']), tr')"
  using assms by (simp add: process_file_def prog_defs)

lemma process_file_object:
  assumes nd: "\<not> endsWith (Key f) ''/''"
  shows "\<exists>m cs. process_file sv b k p dp f rs tr =
            (Inr (rs @ [Failure (Key f) m ''failed'']), tr @ GetObject b (Key f) # cs)
          \<and> m \<noteq> [] \<and> list_all is_openpgp cs \<and> list_all (uses_key k p) cs"
proof -
  obtain r tr1 where dl: "downloadFileFromS3 sv b (Key f) tr = (r, tr1)"
    by (cases "downloadFileFromS3 sv b (Key f) tr")
  have tr1: "tr1 = tr @ [GetObject b (Key f)]"
    using downloadFileFromS3_trace [of sv b "Key f" tr] dl by simp
  show ?thesis
  proof (cases r)
    case (Inl e)
    from downloadFileFromS3_error dl Inl obtain e0
      where "e = Error (''Failed to download file '' @ Key f @ '': '' @ message e0)" by blast
    then have "message e \<noteq> []" by simp
    with process_file_download_fails [OF nd] dl Inl tr1
    show ?thesis by simp
  next
    case (Inr d)
    obtain r2 tr2 where dc: "decryptFile sv d k p tr1 = (r2, tr2)"
      by (cases "decryptFile sv d k p tr1")
    from decryptFile_calls [of sv d k p tr1] dc obtain cs
      where cs: "tr2 = tr1 @ cs" "list_all is_openpgp cs" "list_all (uses_key k p) cs"
      by auto
    show ?thesis
    proof (cases r2)
      case (Inl e)
      from decryptFile_error dc Inl obtain e0
        where "e = Error (''Failed to decrypt file: '' @ message e0)" by blast
      then have "message e \<noteq> []" by simp
      with process_file_decrypt_fails [OF nd] dl dc Inl \<open>r = Inr d\<close> tr1 cs
      show ?thesis by simp
    next
      case (Inr plain)
      have up: "uploadDecryptedFile sv b (Key f) plain dp tr2 =
        (Inl (Error ''Failed to upload decrypted file: decryptedPrefix is not defined''), tr2)"
        by (rule uploadDecryptedFile_throws)
      from process_file_upload_fails [OF nd _ _ up] dl dc Inr \<open>r = Inr d\<close> tr1 cs
      show ?thesis by simp
    qed
  qed
qed

lemma process_files_append:
  "process_files sv b k p dp (xs @ ys) rs tr =
     bnd (process_files sv b k p dp xs rs) (process_files sv b k p dp ys) tr"
proof (induction xs arbitrary: rs tr)
  case Nil
  show ?case by (simp add: prog_defs)
next
  case (Cons x xs)
  show ?case
    by (simp add: bnd_def Cons.IH split: prod.splits sum.splits)
qed

lemma process_files_result:
  "\<exists>new cs. process_files sv b k p dp files rs tr = (Inr (rs @ new), tr @ cs)
     \<and> map originalFile new = map Key (filter not_directory files)
     \<and> list_all (\<lambda>r. has_error_field r \<and> truthy (error_field r)) new
     \<and> filter is_GetObject cs = map (\<lambda>f. GetObject b (Key f)) (filter not_directory files)
     \<and> list_all (\<lambda>c. is_GetObject c \<or> is_openpgp c) cs
     \<and> list_all (uses_key k p) cs"
proof (induction files arbitrary: rs tr)
  case Nil
  show ?case by (simp add: ret_def)
next
  case (Cons f files)
  show ?case
  proof (cases "endsWith (Key f) ''/''")
    case True
    from Cons.IH [of rs tr] show ?thesis
      by (simp add: bnd_def process_file_directory [OF True] not_directory_def True)
  next
    case False
    from process_file_object [OF False, of sv b k p dp rs tr] obtain m cs
      where pf: "process_file sv b k p dp f rs tr =
            (Inr (rs @ [Failure (Key f) m ''failed'']), tr @ GetObject b (Key f) # cs)"
        and m: "m \<noteq> []" and cs: "list_all is_openpgp cs" "list_all (uses_key k p) cs"
      by blast
    from Cons.IH [of "rs @ [Failure (Key f) m ''failed'']" "tr @ GetObject b (Key f) # cs"]
    obtain new cs' where
      rest: "process_files sv b k p dp files (rs @ [Failure (Key f) m ''failed''])
               (tr @ GetObject b (Key f) # cs)
             = (Inr ((rs @ [Failure (Key f) m ''failed'']) @ new), (tr @ GetObject b (Key f) # cs) @ cs')"
      and new: "map originalFile new = map Key (filter not_directory files)"
        "list_all (\<lambda>r. has_error_field r \<and> truthy (error_field r)) new"
      and cs': "filter is_GetObject cs' = map (\<lambda>f. GetObject b (Key f)) (filter not_directory files)"
        "list_all (\<lambda>c. is_GetObject c \<or> is_openpgp c) cs'"
        "list_all (uses_key k p) cs'"
      by blast
    have nog: "filter is_GetObject cs = []"
      using cs(1) by (induction cs) (auto simp: is_openpgp_def)
    have w: "list_all (\<lambda>c. is_GetObject c \<or> is_openpgp c) cs"
      using cs(1) by (simp add: list_all_iff)
    have "process_files sv b k p dp (f # files) rs tr =
          (Inr (rs @ (Failure (Key f) m ''failed'' # new)), tr @ (GetObject b (Key f) # cs @ cs'))"
      using pf rest by (simp add: bnd_def)
    moreover have "map originalFile (Failure (Key f) m ''failed'' # new)
        = map Key (filter not_directory (f # files))"
      using new(1) False by (simp add: not_directory_def)
    moreover have "list_all (\<lambda>r. has_error_field r \<and> truthy (error_field r))
        (Failure (Key f) m ''failed'' # new)"
      using new(2) m by simp
    moreover have "filter is_GetObject (GetObject b (Key f) # cs @ cs')
        = map (\<lambda>f. GetObject b (Key f)) (filter not_directory (f # files))"
      using cs'(1) nog False by (simp add: not_directory_def)
    moreover have "list_all (\<lambda>c. is_GetObject c \<or> is_openpgp c) (GetObject b (Key f) # cs @ cs')"
      using w cs'(2) by simp
    moreover have "list_all (uses_key k p) (GetObject b (Key f) # cs @ cs')"
      using cs(2) cs'(3) by (simp add: uses_key_def)
    ultimately show ?thesis by blast
  qed
qed


section \<open>The handler, path by path\<close>

lemma listEncryptedFiles_defined:
  "s3_listObjectsV2 sv tr b p = Inr r \<Longrightarrow> Contents r = Some files \<Longrightarrow>
     listEncryptedFiles sv b p tr = (Inr files, tr @ [ListObjectsV2 b p])"
  by (simp add: listEncryptedFiles_def prog_defs length_of_def or_empty_def)

lemma listEncryptedFiles_undefined:
  "s3_listObjectsV2 sv tr b p = Inr r \<Longrightarrow> Contents r = None \<Longrightarrow>
     listEncryptedFiles sv b p tr =
       (Inl (Error (''Failed to list files from S3: Cannot read properties of undefined (reading ''
                     @ quoted ''length'' @ '')'')),
        tr @ [ListObjectsV2 b p])"
  by (simp add: listEncryptedFiles_def prog_defs length_of_def or_empty_def)

lemma resolve_key_override:
  "truthy (env_val (env ''privateKey'')) \<Longrightarrow>
     resolve_key sv env tr =
       (Inr \<lparr>km_privateKey = env_val (env ''privateKey''),
             km_passphrase = env_val (env ''passphrase'')\<rparr>, tr)"
  by (simp add: resolve_key_def prog_defs Let_def)

lemma resolve_key_secret:
  "\<not> truthy (env_val (env ''privateKey'')) \<Longrightarrow>
     snd (resolve_key sv env tr) =
       tr @ [GetSecretValue (or_else (env ''secretName'') (env ''SECRET_NAME''))]"
  using getPGPPrivateKey_trace
    [of sv "or_else (env ''secretName'') (env ''SECRET_NAME'')" "env ''keyName''" tr]
  by (auto simp add: resolve_key_def bnd_def ret_def Let_def split: prod.splits sum.splits)

lemma handler_resolve_fails:
  "resolve_key sv env tr = (Inl e, tr1) \<Longrightarrow>
     handler sv env tr =
       (Inr \<lparr>statusCode = 500, body = ErrorBody ''Internal server error'' (message e)\<rparr>, tr1)"
  by (simp add: handler_def prog_defs Let_def)

lemma handler_listing_fails:
  "resolve_key sv env tr = (Inr km, tr1) \<Longrightarrow>
   listEncryptedFiles sv
     (or_default (or_else (env ''bucketName'') (env ''S3_BUCKET_NAME'')) ''sftp-file-sync-vivien'')
     (env ''S3_PREFIX'') tr1 = (Inl e, tr2) \<Longrightarrow>
     handler sv env tr =
       (Inr \<lparr>statusCode = 500, body = ErrorBody ''Internal server error'' (message e)\<rparr>, tr2)"
  by (simp add: handler_def prog_defs Let_def)

lemma handler_no_files:
  "resolve_key sv env tr = (Inr km, tr1) \<Longrightarrow>
   listEncryptedFiles sv
     (or_default (or_else (env ''bucketName'') (env ''S3_BUCKET_NAME'')) ''sftp-file-sync-vivien'')
     (env ''S3_PREFIX'') tr1 = (Inr [], tr2) \<Longrightarrow>
     handler sv env tr =
       (Inr \<lparr>statusCode = 200, body = NoFiles ''No files found to decrypt'' []\<rparr>, tr2)"
  by (simp add: handler_def prog_defs Let_def)

lemma handler_files:
  "resolve_key sv env tr = (Inr km, tr1) \<Longrightarrow>
   listEncryptedFiles sv
     (or_default (or_else (env ''bucketName'') (env ''S3_BUCKET_NAME'')) ''sftp-file-sync-vivien'')
     (env ''S3_PREFIX'') tr1 = (Inr files, tr2) \<Longrightarrow>
   files \<noteq> [] \<Longrightarrow>
   process_files sv
     (or_default (or_else (env ''bucketName'') (env ''S3_BUCKET_NAME'')) ''sftp-file-sync-vivien'')
     (km_privateKey km) (km_passphrase km)
     (or_default (env ''decryptedPrefix'') ''decrypt_files/'') files [] tr2 = (Inr results, tr3) \<Longrightarrow>
     handler sv env tr =
       (Inr \<lparr>statusCode = 200,
             body = Summary (summary_message (length files) (successCount results)
                               (failureCount results)) results\<rparr>, tr3)"
  by (simp add: handler_def prog_defs Let_def)

lemma handler_calls:
  assumes rk: "resolve_key sv env tr = (r, tr1)"
  shows "\<exists>cs. snd (handler sv env tr) = tr1 @ cs
           \<and> list_all (\<lambda>c. \<not> is_GetSecretValue c) cs
           \<and> (case r of Inl e \<Rightarrow> cs = []
               | Inr km \<Rightarrow> list_all (uses_key (km_privateKey km) (km_passphrase km)) cs
                   \<and> (\<exists>cs'. cs = ListObjectsV2
                         (or_default (or_else (env ''bucketName'') (env ''S3_BUCKET_NAME''))
                            ''sftp-file-sync-vivien'') (env ''S3_PREFIX'') # cs'))"
proof (cases r)
  case (Inl e)
  with handler_resolve_fails rk show ?thesis by simp
next
  case (Inr km)
  let ?b = "or_default (or_else (env ''bucketName'') (env ''S3_BUCKET_NAME'')) ''sftp-file-sync-vivien''"
  let ?p = "env ''S3_PREFIX''"
  obtain l tr2 where ls: "listEncryptedFiles sv ?b ?p tr1 = (l, tr2)"
    by (cases "listEncryptedFiles sv ?b ?p tr1")
  have tr2: "tr2 = tr1 @ [ListObjectsV2 ?b ?p]"
    using listEncryptedFiles_trace [of sv ?b ?p tr1] ls by simp
  show ?thesis
  proof (cases l)
    case (Inl e)
    with handler_listing_fails rk ls Inr tr2 show ?thesis by (simp add: uses_key_def)
  next
    case files: (Inr files)
    show ?thesis
    proof (cases "files = []")
      case True
      with handler_no_files rk ls Inr files tr2 show ?thesis by (simp add: uses_key_def)
    next
      case False
      from process_files_result [of sv ?b "km_privateKey km" "km_passphrase km"
          "or_default (env ''decryptedPrefix'') ''decrypt_files/''" files "[]" tr2]
      obtain new cs where
        pf: "process_files sv ?b (km_privateKey km) (km_passphrase km)
               (or_default (env ''decryptedPrefix'') ''decrypt_files/'') files [] tr2
             = (Inr new, tr2 @ cs)"
        and cs: "list_all (uses_key (km_privateKey km) (km_passphrase km)) cs"
        by auto
      have "list_all (\<lambda>c. \<not> is_GetSecretValue c) cs"
        using cs by (induction cs) (auto simp: uses_key_def split: call.splits)
      with handler_files [OF _ _ False pf] rk ls Inr files tr2 cs show ?thesis
        by (simp add: uses_key_def)
    qed
  qed
qed

lemma sample_resolve_override:
  "resolve_key sv sample_env [] =
     (Inr \<lparr>km_privateKey = JStr ''KEY'', km_passphrase = JStr ''pw''\<rparr>, [])"
  by (simp add: resolve_key_def sample_env_def env_val_def ret_def)

lemma sample_bucket: "bucket_of sample_env = ''sftp-file-sync-vivien''"
  by (simp add: sample_env_def or_default_def or_else_def env_val_def)

lemma sample_prefix: "sample_env ''S3_PREFIX'' = Some ''in/''"
  by (simp add: sample_env_def)

lemma sample_listing_call:
  "listEncryptedFiles (sample_services props (Some files)) b p tr = (Inr files, tr @ [ListObjectsV2 b p])"
  by (rule listEncryptedFiles_defined [where r = "\<lparr>Contents = Some files\<rparr>"])
     (simp_all add: sample_services_def)

lemma resolve_key_bucket:
  "resolve_key sv (env(''bucketName'' \<mapsto> b)) = resolve_key sv env"
  by (simp add: resolve_key_def)

lemma string_of_nat_digit: "n < 10 \<Longrightarrow> string_of_nat n = [digit_char n]"
  by (simp add: string_of_nat.simps)

lemma sample_loop:
  "process_files (sample_services props contents) ''sftp-file-sync-vivien'' (JStr ''KEY'') (JStr ''pw'')
     dp sample_listing [] tr =
     (Inr [Failure ''in/a.gpg'' ''Failed to upload decrypted file: decryptedPrefix is not defined'' ''failed'',
           Failure ''in/b.gpg'' ''Failed to download file in/b.gpg: The specified key does not exist.'' ''failed'',
           Failure ''in/c.txt'' ''Failed to upload decrypted file: decryptedPrefix is not defined'' ''failed''],
      tr @ [GetObject ''sftp-file-sync-vivien'' ''in/a.gpg'', ReadPrivateKey (JStr ''KEY''),
        DecryptKey 1 (JStr ''pw''), ReadMessage [1, 2, 3], Decrypt 7 2,
        GetObject ''sftp-file-sync-vivien'' ''in/b.gpg'',
        GetObject ''sftp-file-sync-vivien'' ''in/c.txt'', ReadPrivateKey (JStr ''KEY''),
        DecryptKey 1 (JStr ''pw''), ReadMessage [1, 2, 3], Decrypt 7 2])"
  by (simp add: sample_listing_def process_file_def downloadFileFromS3_def decryptFile_def
      uploadDecryptedFile_throws prog_defs endsWith_def sample_services_def)

lemma sample_run_override:
  "handler (sample_services props (Some sample_listing)) sample_env [] =
     (Inr \<lparr>statusCode = 200,
           body = Summary ''Processed 4 files. Success: 0, Failures: 3''
             [Failure ''in/a.gpg'' ''Failed to upload decrypted file: decryptedPrefix is not defined'' ''failed'',
              Failure ''in/b.gpg'' ''Failed to download file in/b.gpg: The specified key does not exist.'' ''failed'',
              Failure ''in/c.txt'' ''Failed to upload decrypted file: decryptedPrefix is not defined'' ''failed'']\<rparr>,
      [ListObjectsV2 ''sftp-file-sync-vivien'' (Some ''in/''),
       GetObject ''sftp-file-sync-vivien'' ''in/a.gpg'', ReadPrivateKey (JStr ''KEY''),
       DecryptKey 1 (JStr ''pw''), ReadMessage [1, 2, 3], Decrypt 7 2,
       GetObject ''sftp-file-sync-vivien'' ''in/b.gpg'',
       GetObject ''sftp-file-sync-vivien'' ''in/c.txt'', ReadPrivateKey (JStr ''KEY''),
       DecryptKey 1 (JStr ''pw''), ReadMessage [1, 2, 3], Decrypt 7 2])"
proof -
  have ne: "sample_listing \<noteq> []" by (simp add: sample_listing_def)
  have ls: "listEncryptedFiles (sample_services props (Some sample_listing)) (bucket_of sample_env)
      (sample_env ''S3_PREFIX'') [] =
      (Inr sample_listing, [ListObjectsV2 ''sftp-file-sync-vivien'' (Some ''in/'')])"
    using sample_listing_call [of props sample_listing "''sftp-file-sync-vivien''" "Some ''in/''" "[]"]
    by (simp add: sample_bucket sample_prefix)
  have lp: "process_files (sample_services props (Some sample_listing)) (bucket_of sample_env)
      (km_privateKey \<lparr>km_privateKey = JStr ''KEY'', km_passphrase = JStr ''pw''\<rparr>)
      (km_passphrase \<lparr>km_privateKey = JStr ''KEY'', km_passphrase = JStr ''pw''\<rparr>)
      (dest_of sample_env) sample_listing [] [ListObjectsV2 ''sftp-file-sync-vivien'' (Some ''in/'')] =
      (Inr [Failure ''in/a.gpg'' ''Failed to upload decrypted file: decryptedPrefix is not defined'' ''failed'',
           Failure ''in/b.gpg'' ''Failed to download file in/b.gpg: The specified key does not exist.'' ''failed'',
           Failure ''in/c.txt'' ''Failed to upload decrypted file: decryptedPrefix is not defined'' ''failed''],
       [ListObjectsV2 ''sftp-file-sync-vivien'' (Some ''in/'')] @
       [GetObject ''sftp-file-sync-vivien'' ''in/a.gpg'', ReadPrivateKey (JStr ''KEY''),
        DecryptKey 1 (JStr ''pw''), ReadMessage [1, 2, 3], Decrypt 7 2,
        GetObject ''sftp-file-sync-vivien'' ''in/b.gpg'',
        GetObject ''sftp-file-sync-vivien'' ''in/c.txt'', ReadPrivateKey (JStr ''KEY''),
        DecryptKey 1 (JStr ''pw''), ReadMessage [1, 2, 3], Decrypt 7 2])"
    using sample_loop [of props "Some sample_listing" "dest_of sample_env"
        "[ListObjectsV2 ''sftp-file-sync-vivien'' (Some ''in/'')]"]
    by (simp add: sample_bucket)
  have len: "length sample_listing = 4" by (simp add: sample_listing_def)
  from handler_files [OF sample_resolve_override ls ne lp] show ?thesis
    by (simp add: len successCount_def failureCount_def summary_message_def
        string_of_nat_digit digit_char_def)
qed

lemma sample_run_secret:
  "handler (sample_services (map_of [(''pgp-key'', JStr ''KEY'')]) (Some [])) sample_env_secret [] =
      (Inr \<lparr>statusCode = 200, body = NoFiles ''No files found to decrypt'' []\<rparr>,
       [GetSecretValue (Some ''pgp-secret''), ListObjectsV2 ''sftp-file-sync-vivien'' (Some ''in/'')])"
proof -
  let ?sv = "sample_services (map_of [(''pgp-key'', JStr ''KEY'')]) (Some [])"
  have rk: "resolve_key ?sv sample_env_secret [] =
      (Inr \<lparr>km_privateKey = JStr ''KEY'', km_passphrase = JNull\<rparr>,
       [GetSecretValue (Some ''pgp-secret'')])"
    by (simp add: resolve_key_def getPGPPrivateKey_def prog_defs get_prop_def sample_env_secret_def
        sample_services_def env_val_def or_else_def or_default_def Let_def
        Object_prototype_names_def)
  show ?thesis
    using handler_no_files [OF rk, of "[GetSecretValue (Some ''pgp-secret''),
        ListObjectsV2 ''sftp-file-sync-vivien'' (Some ''in/'')]"]
      sample_listing_call [of "map_of [(''pgp-key'', JStr ''KEY'')]" "[]" "''sftp-file-sync-vivien''"
        "Some ''in/''" "[GetSecretValue (Some ''pgp-secret'')]"]
    by (simp add: sample_env_secret_def or_else_def or_default_def env_val_def)
qed

lemma sample_resolve_secret:
  "resolve_key (sample_services (map_of [(''pgp-key'', JStr ''KEY'')]) (Some [])) sample_env_secret [] =
      (Inr \<lparr>km_privateKey = JStr ''KEY'', km_passphrase = JNull\<rparr>,
       [GetSecretValue (Some ''pgp-secret'')])"
  by (simp add: resolve_key_def getPGPPrivateKey_def prog_defs get_prop_def sample_env_secret_def
      sample_services_def env_val_def or_else_def or_default_def Let_def
      Object_prototype_names_def)

lemma sample_resolve_bad:
  "resolve_key (sample_services sample_secret_bad contents) sample_env_secret [] =
      (Inr \<lparr>km_privateKey = JStr ''KEY'', km_passphrase = JStr ''bad''\<rparr>,
       [GetSecretValue (Some ''pgp-secret'')])"
  by (simp add: resolve_key_def getPGPPrivateKey_def prog_defs get_prop_def sample_env_secret_def
      sample_services_def env_val_def or_else_def or_default_def Let_def sample_secret_bad_def)

lemma sample_bucket_secret: "bucket_of sample_env_secret = ''sftp-file-sync-vivien''"
  by (simp add: sample_env_secret_def or_default_def or_else_def env_val_def)

lemma sample_loop_bad:
  "process_files (sample_services props contents) ''sftp-file-sync-vivien'' (JStr ''KEY'') (JStr ''bad'')
     dp sample_listing [] tr =
     (Inr [Failure ''in/a.gpg'' ''Failed to decrypt file: Incorrect key passphrase'' ''failed'',
           Failure ''in/b.gpg'' ''Failed to download file in/b.gpg: The specified key does not exist.'' ''failed'',
           Failure ''in/c.txt'' ''Failed to decrypt file: Incorrect key passphrase'' ''failed''],
      tr @ [GetObject ''sftp-file-sync-vivien'' ''in/a.gpg'', ReadPrivateKey (JStr ''KEY''),
        DecryptKey 1 (JStr ''bad''),
        GetObject ''sftp-file-sync-vivien'' ''in/b.gpg'',
        GetObject ''sftp-file-sync-vivien'' ''in/c.txt'', ReadPrivateKey (JStr ''KEY''),
        DecryptKey 1 (JStr ''bad'')])"
  by (simp add: sample_listing_def process_file_def downloadFileFromS3_def decryptFile_def
      uploadDecryptedFile_throws prog_defs endsWith_def sample_services_def)

lemma sample_run_bad:
  "handler (sample_services sample_secret_bad (Some sample_listing)) sample_env_secret [] =
     (Inr \<lparr>statusCode = 200,
           body = Summary ''Processed 4 files. Success: 0, Failures: 3''
             [Failure ''in/a.gpg'' ''Failed to decrypt file: Incorrect key passphrase'' ''failed'',
              Failure ''in/b.gpg'' ''Failed to download file in/b.gpg: The specified key does not exist.'' ''failed'',
              Failure ''in/c.txt'' ''Failed to decrypt file: Incorrect key passphrase'' ''failed'']\<rparr>,
      [GetSecretValue (Some ''pgp-secret''),
       ListObjectsV2 ''sftp-file-sync-vivien'' (Some ''in/''),
       GetObject ''sftp-file-sync-vivien'' ''in/a.gpg'', ReadPrivateKey (JStr ''KEY''),
       DecryptKey 1 (JStr ''bad''),
       GetObject ''sftp-file-sync-vivien'' ''in/b.gpg'',
       GetObject ''sftp-file-sync-vivien'' ''in/c.txt'', ReadPrivateKey (JStr ''KEY''),
       DecryptKey 1 (JStr ''bad'')])"
proof -
  let ?sv = "sample_services sample_secret_bad (Some sample_listing)"
  let ?tr2 = "[GetSecretValue (Some ''pgp-secret''),
       ListObjectsV2 ''sftp-file-sync-vivien'' (Some ''in/'')]"
  have ne: "sample_listing \<noteq> []" and len: "length sample_listing = 4"
    by (simp_all add: sample_listing_def)
  have ls: "listEncryptedFiles ?sv (bucket_of sample_env_secret) (sample_env_secret ''S3_PREFIX'')
      [GetSecretValue (Some ''pgp-secret'')] = (Inr sample_listing, ?tr2)"
    using sample_listing_call [of sample_secret_bad sample_listing "''sftp-file-sync-vivien''"
        "Some ''in/''" "[GetSecretValue (Some ''pgp-secret'')]"]
    by (simp add: sample_bucket_secret) (simp add: sample_env_secret_def)
  have lp: "process_files ?sv (bucket_of sample_env_secret)
      (km_privateKey \<lparr>km_privateKey = JStr ''KEY'', km_passphrase = JStr ''bad''\<rparr>)
      (km_passphrase \<lparr>km_privateKey = JStr ''KEY'', km_passphrase = JStr ''bad''\<rparr>)
      (dest_of sample_env_secret) sample_listing [] ?tr2 =
      (Inr [Failure ''in/a.gpg'' ''Failed to decrypt file: Incorrect key passphrase'' ''failed'',
           Failure ''in/b.gpg'' ''Failed to download file in/b.gpg: The specified key does not exist.'' ''failed'',
           Failure ''in/c.txt'' ''Failed to decrypt file: Incorrect key passphrase'' ''failed''],
       ?tr2 @ [GetObject ''sftp-file-sync-vivien'' ''in/a.gpg'', ReadPrivateKey (JStr ''KEY''),
        DecryptKey 1 (JStr ''bad''),
        GetObject ''sftp-file-sync-vivien'' ''in/b.gpg'',
        GetObject ''sftp-file-sync-vivien'' ''in/c.txt'', ReadPrivateKey (JStr ''KEY''),
        DecryptKey 1 (JStr ''bad'')])"
    using sample_loop_bad [of sample_secret_bad "Some sample_listing" "dest_of sample_env_secret" ?tr2]
    by (simp add: sample_bucket_secret)
  from handler_files [OF sample_resolve_bad ls ne lp] show ?thesis
    by (simp add: len successCount_def failureCount_def summary_message_def
        string_of_nat_digit digit_char_def)
qed

section \<open>The destination key\<close>

text \<open>
  Claim C1. For every object whose processing succeeds, the destination key written by
  the upload step is the destination prefix followed by the last path segment of the
  source key, with \<open>.gpg\<close> stripped or \<open>.decrypted\<close> appended.

  The code does not get there. Line 109 reads \<open>decryptedPrefix\<close>, but the function's
  fourth parameter is called \<open>encryptedPrefix\<close> and no binding of \<open>decryptedPrefix\<close> is
  visible in the function, so the read throws a ReferenceError, which the function's own
  \<open>catch\<close> rethrows: on every input \<open>uploadDecryptedFile\<close> fails before \<open>s3.upload\<close> is
  called, the trace is left as it was, and no destination key is ever written.
\<close>

theorem uploadDecryptedFile_never_uploads:
  "uploadDecryptedFile sv bucketName key decryptedContent destPrefix tr =
     (Inl (Error ''Failed to upload decrypted file: decryptedPrefix is not defined''), tr)"
  by (rule uploadDecryptedFile_throws)

theorem uploadDecryptedFile_never_uploads_witness:
  "uploadDecryptedFile (sample_services Map.empty None) ''b'' ''in/a.gpg'' [4, 5] ''out/'' [] =
     (Inl (Error ''Failed to upload decrypted file: decryptedPrefix is not defined''), [])"
  using uploadDecryptedFile_never_uploads
    [of "sample_services Map.empty None" "''b''" "''in/a.gpg''" "[4, 5]" "''out/''" "[]"]
  by simp

section \<open>The empty listing\<close>

text \<open>
  Claim C4. When the listing returns an empty sequence, the handler answers 200 with an
  empty result sequence, and no download, decryption or upload takes place: the calls of
  the whole invocation are the fetch of the secret, when there is no key override, and
  the listing call.
\<close>

theorem empty_listing_early_exit:
  assumes rk: "resolve_key sv env tr = (Inr km, tr1)"
    and ls: "listEncryptedFiles sv (bucket_of env) (env ''S3_PREFIX'') tr1 = (Inr [], tr2)"
  shows "handler sv env tr =
           (Inr \<lparr>statusCode = 200, body = NoFiles ''No files found to decrypt'' []\<rparr>, tr2)
         \<and> tr2 = tr1 @ [ListObjectsV2 (bucket_of env) (env ''S3_PREFIX'')]
         \<and> tr1 = tr @ (if truthy (env_val (env ''privateKey'')) then []
                        else [GetSecretValue (secret_of env)])"
proof -
  have "tr2 = tr1 @ [ListObjectsV2 (bucket_of env) (env ''S3_PREFIX'')]"
    using listEncryptedFiles_trace [of sv "bucket_of env" "env ''S3_PREFIX''" tr1] ls by simp
  moreover have "tr1 = tr @ (if truthy (env_val (env ''privateKey'')) then []
                        else [GetSecretValue (secret_of env)])"
    using resolve_key_override [of env sv tr] resolve_key_secret [of env sv tr] rk
    by (cases "truthy (env_val (env ''privateKey''))") simp_all
  ultimately show ?thesis using handler_no_files [OF rk ls] by simp
qed

theorem empty_listing_early_exit_witness:
  "handler (sample_services Map.empty (Some [])) sample_env [] =
     (Inr \<lparr>statusCode = 200, body = NoFiles ''No files found to decrypt'' []\<rparr>,
      [ListObjectsV2 ''sftp-file-sync-vivien'' (Some ''in/'')])"
  using empty_listing_early_exit [OF sample_resolve_override,
      of "sample_services Map.empty (Some [])" "[ListObjectsV2 ''sftp-file-sync-vivien'' (Some ''in/'')]"]
    sample_listing_call [of Map.empty "[]" "''sftp-file-sync-vivien''" "Some ''in/''" "[]"]
  by (simp add: sample_bucket sample_prefix)

section \<open>A secret without the key field\<close>

text \<open>
  The guard of line 31 tests \<open>!secretData[keyName]\<close>. When the secret is an object that
  has no field of the configured name and the name is none that objects inherit, the
  read yields undefined and the invocation aborts: the handler answers 500 with the
  message of line 32, wrapped by line 44, and the fetch of the secret is the only call.
\<close>

lemma absent_key_field_aborts:
  assumes "\<not> truthy (env_val (env ''privateKey''))"
    and "sm_getSecretValue sv tr (secret_of env) = Inr resp"
    and "SecretString resp = Some text" and "text \<noteq> []"
    and "JSON_parse sv text = Inr (PObject own)"
    and "own (key_field_of env) = None"
    and "key_field_of env \<notin> set Object_prototype_names"
  shows "handler sv env tr =
           (Inr \<lparr>statusCode = 500,
                 body = ErrorBody ''Internal server error''
                   (''Failed to retrieve PGP private key: Secret does not contain ''
                      @ key_field_of env @ '' field'')\<rparr>,
            tr @ [GetSecretValue (secret_of env)])"
proof -
  have "getPGPPrivateKey sv (secret_of env) (env ''keyName'') tr =
          (Inl (Error (''Failed to retrieve PGP private key: Secret does not contain ''
                      @ key_field_of env @ '' field'')),
           tr @ [GetSecretValue (secret_of env)])"
    using assms(2-7)
    by (simp add: getPGPPrivateKey_def prog_defs get_prop_def Let_def)
  then have "resolve_key sv env tr =
          (Inl (Error (''Failed to retrieve PGP private key: Secret does not contain ''
                      @ key_field_of env @ '' field'')),
           tr @ [GetSecretValue (secret_of env)])"
    using assms(1) by (simp add: resolve_key_def bnd_def Let_def)
  from handler_resolve_fails [OF this] show ?thesis by simp
qed

text \<open>
  Claim C5. When the key comes from the secrets store and the configured key field is
  absent from the parsed secret, the invocation aborts with a ConfigurationError and a
  top-level failure response before any listing call, and no object is processed.

  The guard reads the property instead of asking whether the secret has the field, so it
  misses the names that every object inherits from \<open>Object.prototype\<close>. With
  \<open>keyName\<close> set to such a name (\<open>toString\<close>, \<open>constructor\<close>, ...) and a secret that has
  no field of that name, the read yields the inherited value, which is truthy: line 32
  is not reached, \<open>getPGPPrivateKey\<close> returns that value as the private key, and the
  handler goes on to the listing call.
\<close>

theorem inherited_key_field_passes_guard:
  assumes "\<not> truthy (env_val (env ''privateKey''))"
    and "sm_getSecretValue sv tr (secret_of env) = Inr resp"
    and "SecretString resp = Some text" and "text \<noteq> []"
    and "JSON_parse sv text = Inr (PObject own)"
    and "own (key_field_of env) = None"
    and "key_field_of env \<in> set Object_prototype_names"
  shows "(\<exists>material.
            resolve_key sv env tr = (Inr material, tr @ [GetSecretValue (secret_of env)])
          \<and> km_privateKey material = JInherited (key_field_of env))
         \<and> (\<exists>cs. snd (handler sv env tr) =
                   tr @ GetSecretValue (secret_of env)
                     # ListObjectsV2 (bucket_of env) (env ''S3_PREFIX'') # cs)"
proof -
  obtain pass where pass: "get_prop (PObject own) ''passphrase'' = Inr pass"
    by (simp add: get_prop_def)
  have kf: "get_prop (PObject own) (key_field_of env) = Inr (JInherited (key_field_of env))"
    using assms(6,7) by (simp add: get_prop_def)
  have "getPGPPrivateKey sv (secret_of env) (env ''keyName'') tr =
          (Inr \<lparr>km_privateKey = JInherited (key_field_of env),
                km_passphrase = (if truthy pass then pass else JNull)\<rparr>,
           tr @ [GetSecretValue (secret_of env)])"
    using assms(2-5) kf pass
    by (simp add: getPGPPrivateKey_def prog_defs Let_def)
  then have rk: "resolve_key sv env tr =
          (Inr \<lparr>km_privateKey = JInherited (key_field_of env),
                km_passphrase = (if truthy pass then pass else JNull)\<rparr>,
           tr @ [GetSecretValue (secret_of env)])"
    using assms(1) by (simp add: resolve_key_def bnd_def ret_def Let_def)
  from handler_calls [OF rk] obtain cs where
    "snd (handler sv env tr) =
       (tr @ [GetSecretValue (secret_of env)])
         @ ListObjectsV2 (bucket_of env) (env ''S3_PREFIX'') # cs"
    by auto
  with rk show ?thesis by simp
qed

theorem inherited_key_field_passes_guard_witness:
  "map_of [(''passphrase'', JStr ''pw'')] ''toString'' = None
   \<and> handler (sample_services (map_of [(''passphrase'', JStr ''pw'')]) (Some []))
       sample_env_inherited [] =
     (Inr \<lparr>statusCode = 200, body = NoFiles ''No files found to decrypt'' []\<rparr>,
      [GetSecretValue (Some ''pgp-secret''),
       ListObjectsV2 ''sftp-file-sync-vivien'' (Some ''in/'')])"
proof -
  let ?own = "map_of [(''passphrase'', JStr ''pw'')]"
  let ?sv = "sample_services ?own (Some [])"
  have rk: "resolve_key ?sv sample_env_inherited [] =
      (Inr \<lparr>km_privateKey = JInherited ''toString'', km_passphrase = JStr ''pw''\<rparr>,
       [GetSecretValue (Some ''pgp-secret'')])"
    by (simp add: resolve_key_def getPGPPrivateKey_def prog_defs get_prop_def
        sample_env_inherited_def sample_services_def env_val_def or_else_def Let_def
        Object_prototype_names_def)
  have run: "handler ?sv sample_env_inherited [] =
     (Inr \<lparr>statusCode = 200, body = NoFiles ''No files found to decrypt'' []\<rparr>,
      [GetSecretValue (Some ''pgp-secret''),
       ListObjectsV2 ''sftp-file-sync-vivien'' (Some ''in/'')])"
    using handler_no_files [OF rk, of "[GetSecretValue (Some ''pgp-secret''),
        ListObjectsV2 ''sftp-file-sync-vivien'' (Some ''in/'')]"]
      sample_listing_call [of ?own "[]" "''sftp-file-sync-vivien''"
        "Some ''in/''" "[GetSecretValue (Some ''pgp-secret'')]"]
    by (simp add: sample_env_inherited_def or_else_def or_default_def env_val_def)
  have h1: "\<not> truthy (env_val (sample_env_inherited ''privateKey''))"
    by (simp add: sample_env_inherited_def env_val_def)
  have h2: "sm_getSecretValue ?sv [] (secret_of sample_env_inherited)
      = Inr \<lparr>SecretString = Some ''{...}''\<rparr>"
    by (simp add: sample_services_def)
  have h3: "SecretString \<lparr>SecretString = Some ''{...}''\<rparr> = Some ''{...}''" by simp
  have h4: "''{...}'' \<noteq> []" by simp
  have h5: "JSON_parse ?sv ''{...}'' = Inr (PObject ?own)" by (simp add: sample_services_def)
  have h6: "?own (key_field_of sample_env_inherited) = None"
    by (simp add: sample_env_inherited_def)
  have h7: "key_field_of sample_env_inherited \<in> set Object_prototype_names"
    by (simp add: sample_env_inherited_def Object_prototype_names_def)
  from inherited_key_field_passes_guard [OF h1 h2 h3 h4 h5 h6 h7] run show ?thesis by simp
qed

section \<open>Where the key material comes from\<close>



section \<open>The lister\<close>

text \<open>
  Claim C7. For every bucket and prefix, the lister returns an empty sequence, not an
  error, whenever the listing call succeeds and no object matches, and it fails only
  when the listing call fails.

  The client of line 1 fills a list the service left out of its answer, so a listing that
  succeeds carries an array in \<open>Contents\<close>, the empty one when nothing matches; this is
  the hypothesis. Then the lister returns that array, and the only errors it throws are
  those of the listing call, under the prefix of line 69.
\<close>

theorem lister_fails_only_with_the_call:
  assumes "\<forall>r. s3_listObjectsV2 sv tr bucketName prefix = Inr r \<longrightarrow> Contents r \<noteq> None"
  shows "(\<forall>r. s3_listObjectsV2 sv tr bucketName prefix = Inr r \<and> Contents r = Some []
            \<longrightarrow> listEncryptedFiles sv bucketName prefix tr
                  = (Inr [], tr @ [ListObjectsV2 bucketName prefix]))
       \<and> (\<forall>r files. s3_listObjectsV2 sv tr bucketName prefix = Inr r \<and> Contents r = Some files
            \<longrightarrow> listEncryptedFiles sv bucketName prefix tr
                  = (Inr files, tr @ [ListObjectsV2 bucketName prefix]))
       \<and> (\<forall>e tr'. listEncryptedFiles sv bucketName prefix tr = (Inl e, tr')
            \<longrightarrow> (\<exists>e0. s3_listObjectsV2 sv tr bucketName prefix = Inl e0
                       \<and> e = Error (''Failed to list files from S3: '' @ message e0)))
       \<and> (\<forall>e0. s3_listObjectsV2 sv tr bucketName prefix = Inl e0
            \<longrightarrow> listEncryptedFiles sv bucketName prefix tr
                  = (Inl (Error (''Failed to list files from S3: '' @ message e0)),
                     tr @ [ListObjectsV2 bucketName prefix]))"
proof (intro conjI allI impI)
  fix r
  assume "s3_listObjectsV2 sv tr bucketName prefix = Inr r \<and> Contents r = Some []"
  then show "listEncryptedFiles sv bucketName prefix tr
      = (Inr [], tr @ [ListObjectsV2 bucketName prefix])"
    using listEncryptedFiles_defined by blast
next
  fix r files
  assume "s3_listObjectsV2 sv tr bucketName prefix = Inr r \<and> Contents r = Some files"
  then show "listEncryptedFiles sv bucketName prefix tr
      = (Inr files, tr @ [ListObjectsV2 bucketName prefix])"
    using listEncryptedFiles_defined by blast
next
  fix e tr'
  assume f: "listEncryptedFiles sv bucketName prefix tr = (Inl e, tr')"
  show "\<exists>e0. s3_listObjectsV2 sv tr bucketName prefix = Inl e0
           \<and> e = Error (''Failed to list files from S3: '' @ message e0)"
  proof (cases "s3_listObjectsV2 sv tr bucketName prefix")
    case (Inl e0)
    with f show ?thesis by (simp add: listEncryptedFiles_def prog_defs)
  next
    case (Inr r)
    with assms obtain files where "Contents r = Some files" by blast
    with listEncryptedFiles_defined [OF Inr this] f show ?thesis by simp
  qed
next
  fix e0
  assume "s3_listObjectsV2 sv tr bucketName prefix = Inl e0"
  then show "listEncryptedFiles sv bucketName prefix tr
      = (Inl (Error (''Failed to list files from S3: '' @ message e0)),
         tr @ [ListObjectsV2 bucketName prefix])"
    by (simp add: listEncryptedFiles_def prog_defs)
qed

theorem lister_fails_only_with_the_call_witness:
  "s3_listObjectsV2 (sample_services Map.empty (Some [])) [] ''b'' (Some ''in/'')
     = Inr \<lparr>Contents = Some []\<rparr>
   \<and> listEncryptedFiles (sample_services Map.empty (Some [])) ''b'' (Some ''in/'') []
     = (Inr [], [ListObjectsV2 ''b'' (Some ''in/'')])
   \<and> s3_listObjectsV2 sample_services_denied [] ''b'' (Some ''in/'') = Inl (Error ''Access Denied'')
   \<and> listEncryptedFiles sample_services_denied ''b'' (Some ''in/'') []
     = (Inl (Error ''Failed to list files from S3: Access Denied''),
        [ListObjectsV2 ''b'' (Some ''in/'')])"
proof -
  let ?ok = "sample_services Map.empty (Some [])"
  have a: "s3_listObjectsV2 ?ok [] ''b'' (Some ''in/'') = Inr \<lparr>Contents = Some []\<rparr>"
    by (simp add: sample_services_def)
  have b: "s3_listObjectsV2 sample_services_denied [] ''b'' (Some ''in/'')
     = Inl (Error ''Access Denied'')"
    by (simp add: sample_services_denied_def)
  have shape_ok:
    "\<forall>r. s3_listObjectsV2 ?ok [] ''b'' (Some ''in/'') = Inr r \<longrightarrow> Contents r \<noteq> None"
    using a by auto
  have shape_denied:
    "\<forall>r. s3_listObjectsV2 sample_services_denied [] ''b'' (Some ''in/'') = Inr r
         \<longrightarrow> Contents r \<noteq> None"
    using b by simp
  have "\<forall>r. s3_listObjectsV2 ?ok [] ''b'' (Some ''in/'') = Inr r \<and> Contents r = Some []
            \<longrightarrow> listEncryptedFiles ?ok ''b'' (Some ''in/'') []
                  = (Inr [], [] @ [ListObjectsV2 ''b'' (Some ''in/'')])"
    using lister_fails_only_with_the_call [of ?ok "[]" "''b''" "Some ''in/''", OF shape_ok]
    by (elim conjE)
  with a have c: "listEncryptedFiles ?ok ''b'' (Some ''in/'') []
     = (Inr [], [ListObjectsV2 ''b'' (Some ''in/'')])"
    by simp
  have "\<forall>e0. s3_listObjectsV2 sample_services_denied [] ''b'' (Some ''in/'') = Inl e0
            \<longrightarrow> listEncryptedFiles sample_services_denied ''b'' (Some ''in/'') []
                  = (Inl (Error (''Failed to list files from S3: '' @ message e0)),
                     [] @ [ListObjectsV2 ''b'' (Some ''in/'')])"
    using lister_fails_only_with_the_call
      [of sample_services_denied "[]" "''b''" "Some ''in/''", OF shape_denied]
    by (elim conjE)
  with b have d: "listEncryptedFiles sample_services_denied ''b'' (Some ''in/'') []
     = (Inl (Error ''Failed to list files from S3: Access Denied''),
        [ListObjectsV2 ''b'' (Some ''in/'')])"
    by simp
  from a b c d show ?thesis by simp
qed

section \<open>A missing bucket name\<close>

text \<open>
  Claim C8. An invocation in which a required configuration value, such as the bucket
  name, is absent fails with a ConfigurationError instead of going on with a substituted
  value.

  Line 181 ends in \<open>|| 'sftp-file-sync-vivien'\<close>: with no bucket configured the handler
  lists that bucket and answers 200.
\<close>

theorem missing_bucket_counterexample:
  "sample_env ''bucketName'' = None \<and> sample_env ''S3_BUCKET_NAME'' = None
   \<and> handler (sample_services Map.empty (Some [])) sample_env [] =
       (Inr \<lparr>statusCode = 200, body = NoFiles ''No files found to decrypt'' []\<rparr>,
        [ListObjectsV2 ''sftp-file-sync-vivien'' (Some ''in/'')])"
  using handler_no_files [OF sample_resolve_override,
      of "sample_services Map.empty (Some [])" "[ListObjectsV2 ''sftp-file-sync-vivien'' (Some ''in/'')]"]
    sample_listing_call [of Map.empty "[]" "''sftp-file-sync-vivien''" "Some ''in/''" "[]"]
  by (simp add: sample_bucket sample_prefix) (simp add: sample_env_def)

text \<open>
  Claim C8, amended. When neither \<open>bucketName\<close> nor \<open>S3_BUCKET_NAME\<close> is set to a
  non-empty string, the invocation behaves exactly as if \<open>bucketName\<close> were set to
  \<open>sftp-file-sync-vivien\<close>: once the key is resolved, its next call is the listing of that
  bucket.
\<close>

theorem missing_bucket_uses_default:
  assumes "\<not> truthy (env_val (env ''bucketName''))"
    and "\<not> truthy (env_val (env ''S3_BUCKET_NAME''))"
    and rk: "resolve_key sv env tr = (Inr km, tr1)"
  shows "handler sv env tr = handler sv (env(''bucketName'' \<mapsto> ''sftp-file-sync-vivien'')) tr
         \<and> (\<exists>cs. snd (handler sv env tr) =
                   tr1 @ ListObjectsV2 ''sftp-file-sync-vivien'' (env ''S3_PREFIX'') # cs)"
proof -
  have b: "bucket_of env = ''sftp-file-sync-vivien''"
    using assms(1,2) by (auto simp: or_else_def or_default_def env_val_def split: option.splits)
  have "handler sv env tr = handler sv (env(''bucketName'' \<mapsto> ''sftp-file-sync-vivien'')) tr"
    unfolding handler_def resolve_key_bucket using b
    by (simp add: or_else_def or_default_def env_val_def)
  moreover from handler_calls [OF rk] b
  have "\<exists>cs. snd (handler sv env tr) =
                   tr1 @ ListObjectsV2 ''sftp-file-sync-vivien'' (env ''S3_PREFIX'') # cs"
    by auto
  ultimately show ?thesis by simp
qed

theorem missing_bucket_uses_default_witness:
  "\<not> truthy (env_val (sample_env_secret ''bucketName''))
   \<and> \<not> truthy (env_val (sample_env_secret ''S3_BUCKET_NAME''))
   \<and> handler (sample_services (map_of [(''pgp-key'', JStr ''KEY'')]) (Some [])) sample_env_secret [] =
      handler (sample_services (map_of [(''pgp-key'', JStr ''KEY'')]) (Some []))
        (sample_env_secret(''bucketName'' \<mapsto> ''sftp-file-sync-vivien'')) []
   \<and> snd (handler (sample_services (map_of [(''pgp-key'', JStr ''KEY'')]) (Some [])) sample_env_secret []) =
       [GetSecretValue (Some ''pgp-secret''), ListObjectsV2 ''sftp-file-sync-vivien'' (Some ''in/'')]"
proof -
  have h1: "\<not> truthy (env_val (sample_env_secret ''bucketName''))"
    and h2: "\<not> truthy (env_val (sample_env_secret ''S3_BUCKET_NAME''))"
    by (simp_all add: sample_env_secret_def env_val_def)
  from missing_bucket_uses_default [OF h1 h2 sample_resolve_secret] h1 h2 sample_run_secret
  show ?thesis by simp
qed

section \<open>A failing object does not stop the loop\<close>

text \<open>
  Claim C2. A failure raised while an object is downloaded, decrypted, or uploaded (the
  destination key is computed inside the upload function) is caught and becomes a
  Failure result with that object's key and the error's message, and every later object
  of the listing is still processed: the handler answers 200, the results gathered
  before the failing object are kept, the Failure follows them, and after it come one
  result and one download per later object that is no directory marker.
\<close>

theorem failure_is_isolated:
  assumes rk: "resolve_key sv env tr = (Inr km, tr1)"
    and ls: "listEncryptedFiles sv (bucket_of env) (env ''S3_PREFIX'') tr1
               = (Inr (pre @ file # post), tr2)"
    and nd: "not_directory file"
    and before: "process_files sv (bucket_of env) (km_privateKey km) (km_passphrase km)
                   (dest_of env) pre [] tr2 = (before, tra)"
    and fails:
      "downloadFileFromS3 sv (bucket_of env) (Key file) tra = (Inl e, trb)
       \<or> (\<exists>content trd.
             downloadFileFromS3 sv (bucket_of env) (Key file) tra = (Inr content, trd)
           \<and> (decryptFile sv content (km_privateKey km) (km_passphrase km) trd = (Inl e, trb)
              \<or> (\<exists>plain tru.
                    decryptFile sv content (km_privateKey km) (km_passphrase km) trd
                      = (Inr plain, tru)
                  \<and> uploadDecryptedFile sv (bucket_of env) (Key file) plain (dest_of env) tru
                      = (Inl e, trb))))"
  shows "\<exists>earlier rest msg cs.
           before = Inr earlier
         \<and> handler sv env tr =
             (Inr \<lparr>statusCode = 200,
                   body = Summary msg
                     (earlier @ Failure (Key file) (message e) ''failed'' # rest)\<rparr>, trb @ cs)
         \<and> map originalFile rest = map Key (filter not_directory post)
         \<and> filter is_GetObject cs =
             map (\<lambda>f. GetObject (bucket_of env) (Key f)) (filter not_directory post)"
proof -
  let ?b = "bucket_of env" and ?k = "km_privateKey km" and ?p = "km_passphrase km"
    and ?d = "dest_of env"
  let ?F = "Failure (Key file) (message e) ''failed''"
  from process_files_result [of sv ?b ?k ?p ?d pre "[]" tr2] before
  obtain earlier where earlier: "before = Inr earlier" by auto
  have nd': "\<not> endsWith (Key file) ''/''" using nd by (simp add: not_directory_def)
  have one: "process_file sv ?b ?k ?p ?d file earlier tra = (Inr (earlier @ [?F]), trb)"
    using fails
  proof (elim disjE exE conjE)
    assume "downloadFileFromS3 sv ?b (Key file) tra = (Inl e, trb)"
    then show ?thesis by (rule process_file_download_fails [OF nd'])
  next
    fix content trd
    assume "downloadFileFromS3 sv ?b (Key file) tra = (Inr content, trd)"
      and "decryptFile sv content ?k ?p trd = (Inl e, trb)"
    then show ?thesis by (rule process_file_decrypt_fails [OF nd'])
  next
    fix content trd plain tru
    assume "downloadFileFromS3 sv ?b (Key file) tra = (Inr content, trd)"
      and "decryptFile sv content ?k ?p trd = (Inr plain, tru)"
      and "uploadDecryptedFile sv ?b (Key file) plain ?d tru = (Inl e, trb)"
    then show ?thesis by (rule process_file_upload_fails [OF nd'])
  qed
  from process_files_result [of sv ?b ?k ?p ?d post "earlier @ [?F]" trb]
  obtain rest cs where
    post: "process_files sv ?b ?k ?p ?d post (earlier @ [?F]) trb
             = (Inr ((earlier @ [?F]) @ rest), trb @ cs)"
    and keys: "map originalFile rest = map Key (filter not_directory post)"
    and gets: "filter is_GetObject cs =
             map (\<lambda>f. GetObject ?b (Key f)) (filter not_directory post)"
    by auto
  have "process_files sv ?b ?k ?p ?d (pre @ file # post) [] tr2
          = (Inr (earlier @ ?F # rest), trb @ cs)"
    using before earlier one post by (simp add: process_files_append bnd_def)
  from handler_files [OF rk ls _ this] earlier keys gets show ?thesis by auto
qed

theorem failure_is_isolated_witness:
  "not_directory \<lparr>Key = ''in/a.gpg'', Size = 10, LastModified = 101\<rparr>
   \<and> decryptFile (sample_services sample_secret_bad (Some sample_listing)) [1, 2, 3]
        (JStr ''KEY'') (JStr ''bad'')
        [GetSecretValue (Some ''pgp-secret''),
         ListObjectsV2 ''sftp-file-sync-vivien'' (Some ''in/''),
         GetObject ''sftp-file-sync-vivien'' ''in/a.gpg''] =
       (Inl (Error ''Failed to decrypt file: Incorrect key passphrase''),
        [GetSecretValue (Some ''pgp-secret''),
         ListObjectsV2 ''sftp-file-sync-vivien'' (Some ''in/''),
         GetObject ''sftp-file-sync-vivien'' ''in/a.gpg'', ReadPrivateKey (JStr ''KEY''),
         DecryptKey 1 (JStr ''bad'')])
   \<and> handler (sample_services sample_secret_bad (Some sample_listing)) sample_env_secret [] =
     (Inr \<lparr>statusCode = 200,
           body = Summary ''Processed 4 files. Success: 0, Failures: 3''
             [Failure ''in/a.gpg'' ''Failed to decrypt file: Incorrect key passphrase'' ''failed'',
              Failure ''in/b.gpg'' ''Failed to download file in/b.gpg: The specified key does not exist.'' ''failed'',
              Failure ''in/c.txt'' ''Failed to decrypt file: Incorrect key passphrase'' ''failed'']\<rparr>,
      [GetSecretValue (Some ''pgp-secret''),
       ListObjectsV2 ''sftp-file-sync-vivien'' (Some ''in/''),
       GetObject ''sftp-file-sync-vivien'' ''in/a.gpg'', ReadPrivateKey (JStr ''KEY''),
       DecryptKey 1 (JStr ''bad''),
       GetObject ''sftp-file-sync-vivien'' ''in/b.gpg'',
       GetObject ''sftp-file-sync-vivien'' ''in/c.txt'', ReadPrivateKey (JStr ''KEY''),
       DecryptKey 1 (JStr ''bad'')])"
proof -
  let ?sv = "sample_services sample_secret_bad (Some sample_listing)"
  let ?b = "''sftp-file-sync-vivien''"
  let ?tr2 = "[GetSecretValue (Some ''pgp-secret''), ListObjectsV2 ?b (Some ''in/'')]"
  let ?a = "\<lparr>Key = ''in/a.gpg'', Size = 10, LastModified = 101\<rparr>"
  let ?pre = "[\<lparr>Key = ''in/'', Size = 0, LastModified = 100\<rparr>]"
  let ?post = "[\<lparr>Key = ''in/b.gpg'', Size = 20, LastModified = 102\<rparr>,
                \<lparr>Key = ''in/c.txt'', Size = 30, LastModified = 103\<rparr>]"
  have nd: "not_directory ?a" by (simp add: not_directory_def endsWith_def)
  have ls: "listEncryptedFiles ?sv (bucket_of sample_env_secret) (sample_env_secret ''S3_PREFIX'')
      [GetSecretValue (Some ''pgp-secret'')] = (Inr (?pre @ ?a # ?post), ?tr2)"
    using sample_listing_call [of sample_secret_bad sample_listing ?b
        "Some ''in/''" "[GetSecretValue (Some ''pgp-secret'')]"]
    by (simp add: sample_bucket_secret) (simp add: sample_env_secret_def sample_listing_def)
  have before: "process_files ?sv (bucket_of sample_env_secret)
      (km_privateKey \<lparr>km_privateKey = JStr ''KEY'', km_passphrase = JStr ''bad''\<rparr>)
      (km_passphrase \<lparr>km_privateKey = JStr ''KEY'', km_passphrase = JStr ''bad''\<rparr>)
      (dest_of sample_env_secret) ?pre [] ?tr2 = (Inr [], ?tr2)"
    by (simp add: process_file_def prog_defs endsWith_def)
  have dl: "downloadFileFromS3 ?sv (bucket_of sample_env_secret) (Key ?a) ?tr2 =
      (Inr [1, 2, 3], ?tr2 @ [GetObject ?b ''in/a.gpg''])"
    by (simp add: downloadFileFromS3_def prog_defs sample_services_def sample_bucket_secret)
  have dc: "decryptFile ?sv [1, 2, 3] (JStr ''KEY'') (JStr ''bad'') (?tr2 @ [GetObject ?b ''in/a.gpg'']) =
      (Inl (Error ''Failed to decrypt file: Incorrect key passphrase''),
       ?tr2 @ [GetObject ?b ''in/a.gpg'', ReadPrivateKey (JStr ''KEY''), DecryptKey 1 (JStr ''bad'')])"
    by (simp add: decryptFile_def prog_defs sample_services_def)
  have fails: "downloadFileFromS3 ?sv (bucket_of sample_env_secret) (Key ?a) ?tr2
        = (Inl (Error ''Failed to decrypt file: Incorrect key passphrase''),
           ?tr2 @ [GetObject ?b ''in/a.gpg'', ReadPrivateKey (JStr ''KEY''), DecryptKey 1 (JStr ''bad'')])
       \<or> (\<exists>content trd.
             downloadFileFromS3 ?sv (bucket_of sample_env_secret) (Key ?a) ?tr2 = (Inr content, trd)
           \<and> (decryptFile ?sv content
                 (km_privateKey \<lparr>km_privateKey = JStr ''KEY'', km_passphrase = JStr ''bad''\<rparr>)
                 (km_passphrase \<lparr>km_privateKey = JStr ''KEY'', km_passphrase = JStr ''bad''\<rparr>) trd
                = (Inl (Error ''Failed to decrypt file: Incorrect key passphrase''),
                   ?tr2 @ [GetObject ?b ''in/a.gpg'', ReadPrivateKey (JStr ''KEY''), DecryptKey 1 (JStr ''bad'')])
              \<or> (\<exists>plain tru.
                    decryptFile ?sv content
                      (km_privateKey \<lparr>km_privateKey = JStr ''KEY'', km_passphrase = JStr ''bad''\<rparr>)
                      (km_passphrase \<lparr>km_privateKey = JStr ''KEY'', km_passphrase = JStr ''bad''\<rparr>) trd
                      = (Inr plain, tru)
                  \<and> uploadDecryptedFile ?sv (bucket_of sample_env_secret) (Key ?a) plain
                      (dest_of sample_env_secret) tru
                      = (Inl (Error ''Failed to decrypt file: Incorrect key passphrase''),
                   ?tr2 @ [GetObject ?b ''in/a.gpg'', ReadPrivateKey (JStr ''KEY''), DecryptKey 1 (JStr ''bad'')]))))"
    using dl dc by simp
  from failure_is_isolated [OF sample_resolve_bad ls nd before fails] nd dc sample_run_bad
  show ?thesis by simp
qed

section \<open>One result per object\<close>

text \<open>
  Claim C3. For a non-empty listing, each descriptor whose key does not end with \<open>/\<close>
  gives exactly one result, the others give none, and no descriptor is processed twice:
  the results carry, in order, the keys of the descriptors that are no directory markers,
  so there are as many results as such descriptors, and the downloads of the loop are one
  per such descriptor, in the same order.
\<close>

theorem one_result_per_object:
  assumes rk: "resolve_key sv env tr = (Inr km, tr1)"
    and ls: "listEncryptedFiles sv (bucket_of env) (env ''S3_PREFIX'') tr1 = (Inr files, tr2)"
    and ne: "files \<noteq> []"
  shows "\<exists>msg results cs.
           handler sv env tr = (Inr \<lparr>statusCode = 200, body = Summary msg results\<rparr>, tr2 @ cs)
         \<and> map originalFile results = map Key (filter not_directory files)
         \<and> length results = length (filter not_directory files)
         \<and> filter is_GetObject cs =
             map (\<lambda>file. GetObject (bucket_of env) (Key file)) (filter not_directory files)"
proof -
  from process_files_result [of sv "bucket_of env" "km_privateKey km" "km_passphrase km"
      "dest_of env" files "[]" tr2]
  obtain results cs where
    pf: "process_files sv (bucket_of env) (km_privateKey km) (km_passphrase km) (dest_of env)
           files [] tr2 = (Inr results, tr2 @ cs)"
    and keys: "map originalFile results = map Key (filter not_directory files)"
    and gets: "filter is_GetObject cs =
             map (\<lambda>file. GetObject (bucket_of env) (Key file)) (filter not_directory files)"
    by auto
  from keys have "length (map originalFile results) = length (map Key (filter not_directory files))"
    by simp
  then have len: "length results = length (filter not_directory files)" by simp
  from handler_files [OF rk ls ne pf] keys len gets show ?thesis by blast
qed

theorem one_result_per_object_witness:
  "sample_listing \<noteq> []
   \<and> map Key (filter not_directory sample_listing) = [''in/a.gpg'', ''in/b.gpg'', ''in/c.txt'']
   \<and> handler (sample_services Map.empty (Some sample_listing)) sample_env [] =
     (Inr \<lparr>statusCode = 200,
           body = Summary ''Processed 4 files. Success: 0, Failures: 3''
             [Failure ''in/a.gpg'' ''Failed to upload decrypted file: decryptedPrefix is not defined'' ''failed'',
              Failure ''in/b.gpg'' ''Failed to download file in/b.gpg: The specified key does not exist.'' ''failed'',
              Failure ''in/c.txt'' ''Failed to upload decrypted file: decryptedPrefix is not defined'' ''failed'']\<rparr>,
      [ListObjectsV2 ''sftp-file-sync-vivien'' (Some ''in/''),
       GetObject ''sftp-file-sync-vivien'' ''in/a.gpg'', ReadPrivateKey (JStr ''KEY''),
       DecryptKey 1 (JStr ''pw''), ReadMessage [1, 2, 3], Decrypt 7 2,
       GetObject ''sftp-file-sync-vivien'' ''in/b.gpg'',
       GetObject ''sftp-file-sync-vivien'' ''in/c.txt'', ReadPrivateKey (JStr ''KEY''),
       DecryptKey 1 (JStr ''pw''), ReadMessage [1, 2, 3], Decrypt 7 2])"
proof -
  have ne: "sample_listing \<noteq> []" by (simp add: sample_listing_def)
  have ls: "listEncryptedFiles (sample_services Map.empty (Some sample_listing)) (bucket_of sample_env)
      (sample_env ''S3_PREFIX'') [] =
      (Inr sample_listing, [ListObjectsV2 ''sftp-file-sync-vivien'' (Some ''in/'')])"
    using sample_listing_call [of Map.empty sample_listing "''sftp-file-sync-vivien''" "Some ''in/''" "[]"]
    by (simp add: sample_bucket sample_prefix)
  have k: "map Key (filter not_directory sample_listing) = [''in/a.gpg'', ''in/b.gpg'', ''in/c.txt'']"
    by (simp add: sample_listing_def not_directory_def endsWith_def)
  from one_result_per_object [OF sample_resolve_override ls ne] ne k sample_run_override [of Map.empty]
  show ?thesis by simp
qed

section \<open>The steps of decryption\<close>

text \<open>
  Claim C9. Decryption reads the armored private key, unlocks it if and only if a
  passphrase is given (the code's test is \<open>if (passphrase)\<close>: null, undefined and the
  empty string skip the step), reads the encrypted message and decrypts it with the key,
  in this order. It returns the plaintext exactly when every step succeeds, and
  otherwise fails with the error of the first failing step, wrapped as
  \<open>Failed to decrypt file: ...\<close> (the spec's DecryptionError), having made no call after
  that step.
\<close>

theorem decryptFile_steps:
  "(decryptFile sv content key pass tr = (Inr plain, tr') \<longleftrightarrow>
      (\<exists>readKey privateKey msg.
          openpgp_readPrivateKey sv tr key = Inr readKey
        \<and> (if truthy pass
            then openpgp_decryptKey sv (tr @ [ReadPrivateKey key]) readKey pass = Inr privateKey
            else privateKey = readKey)
        \<and> openpgp_readMessage sv (tr @ key_steps key pass readKey) content = Inr msg
        \<and> openpgp_decrypt sv (tr @ key_steps key pass readKey @ [ReadMessage content])
             msg privateKey = Inr plain
        \<and> tr' = tr @ key_steps key pass readKey @ [ReadMessage content, Decrypt msg privateKey]))
   \<and> (decryptFile sv content key pass tr = (Inl err, tr') \<longrightarrow>
      (\<exists>e. err = Error (''Failed to decrypt file: '' @ message e)
         \<and> ((openpgp_readPrivateKey sv tr key = Inl e \<and> tr' = tr @ [ReadPrivateKey key])
            \<or> (\<exists>readKey.
                  openpgp_readPrivateKey sv tr key = Inr readKey \<and> truthy pass
                \<and> openpgp_decryptKey sv (tr @ [ReadPrivateKey key]) readKey pass = Inl e
                \<and> tr' = tr @ key_steps key pass readKey)
            \<or> (\<exists>readKey.
                  openpgp_readPrivateKey sv tr key = Inr readKey
                \<and> openpgp_readMessage sv (tr @ key_steps key pass readKey) content = Inl e
                \<and> tr' = tr @ key_steps key pass readKey @ [ReadMessage content])
            \<or> (\<exists>readKey privateKey msg.
                  openpgp_readPrivateKey sv tr key = Inr readKey
                \<and> openpgp_readMessage sv (tr @ key_steps key pass readKey) content = Inr msg
                \<and> openpgp_decrypt sv (tr @ key_steps key pass readKey @ [ReadMessage content])
                     msg privateKey = Inl e
                \<and> tr' = tr @ key_steps key pass readKey
                           @ [ReadMessage content, Decrypt msg privateKey]))))"
  by (auto simp add: decryptFile_def prog_defs key_steps_def split: sum.splits if_splits)

theorem decryptFile_steps_witness:
  "decryptFile (sample_services Map.empty None) [1, 2, 3] (JStr ''KEY'') (JStr ''pw'') [] =
     (Inr [4, 5], [ReadPrivateKey (JStr ''KEY''), DecryptKey 1 (JStr ''pw''),
                   ReadMessage [1, 2, 3], Decrypt 7 2])
   \<and> decryptFile (sample_services Map.empty None) [1, 2, 3] (JStr ''KEY'') JNull [] =
     (Inr [4, 5], [ReadPrivateKey (JStr ''KEY''), ReadMessage [1, 2, 3], Decrypt 7 1])
   \<and> decryptFile (sample_services Map.empty None) [1, 2, 3] (JStr ''KEY'') (JStr ''bad'') [] =
     (Inl (Error ''Failed to decrypt file: Incorrect key passphrase''),
      [ReadPrivateKey (JStr ''KEY''), DecryptKey 1 (JStr ''bad'')])"
  using decryptFile_steps [of "sample_services Map.empty None" "[1, 2, 3]" "JStr ''KEY''"
      "JStr ''pw''" "[]" "[4, 5]"
      "[ReadPrivateKey (JStr ''KEY''), DecryptKey 1 (JStr ''pw''), ReadMessage [1, 2, 3], Decrypt 7 2]"]
    decryptFile_steps [of "sample_services Map.empty None" "[1, 2, 3]" "JStr ''KEY''"
      "JNull" "[]" "[4, 5]"
      "[ReadPrivateKey (JStr ''KEY''), ReadMessage [1, 2, 3], Decrypt 7 1]"]
  by (simp add: sample_services_def key_steps_def decryptFile_def prog_defs)

section \<open>The counts of the summary\<close>



end
